theory Spec2Isabelle
  imports Main
begin

section \<open>The dispatcher of skelenode-dispatcher, embedded\<close>

text \<open>
  The module \<open>index.js\<close> keeps its state in module variables and in attributes it writes
  on other objects: the \<open>dispatcher\<close> attribute of a context, the \<open>dispatcher\<close>
  attribute of a redis client, and the \<open>_callbacks\<close> object that both of them point to.
  The embedding passes all of it around as one \<open>world\<close> value. Objects that are shared
  by reference (contexts, redis clients, \<open>_callbacks\<close> objects) live in stores indexed
  by an address; the two small namespace objects are never written after they are built
  and are kept as values.
\<close>

subsection \<open>JavaScript values\<close>

type_synonym addr = nat

text \<open>A value that may be \<open>undefined\<close> or \<open>null\<close> where the code expects something.\<close>

datatype 'a js = Undefined | Null | Val 'a

text \<open>Truthiness of an object or function reference: only the two nullish values are falsy.\<close>

fun truthy :: "'a js \<Rightarrow> bool" where
  "truthy (Val _) = True"
| "truthy _ = False"

text \<open>Truthiness of a string: the empty string is falsy as well.\<close>

fun truthy_str :: "string js \<Rightarrow> bool" where
  "truthy_str (Val s) = (s \<noteq> [])"
| "truthy_str _ = False"

text \<open>String concatenation converts its operand: \<open>'' + undefined\<close> is \<open>'undefined'\<close>.\<close>

fun to_string :: "string js \<Rightarrow> string" where
  "to_string Undefined = ''undefined''"
| "to_string Null = ''null''"
| "to_string (Val s) = s"

definition digit :: "nat \<Rightarrow> char" where
  "digit d = (''0123456789'' ! d)"

function string_of_nat :: "nat \<Rightarrow> string" where
  "string_of_nat n =
     (if n < 10 then [digit n] else string_of_nat (n div 10) @ [digit (n mod 10)])"
  by pat_completeness auto
termination
  by (relation "measure id") auto

text \<open>
  A callback is a function object, compared by identity (\<open>===\<close>): two callbacks are the
  same function exactly when they are the same value here, and the number tells functions
  with the same body apart. The constructor gives the body: it returns at once, it raises
  at once, or it makes a sequence of calls into the dispatcher and then returns.
\<close>

datatype target = Receiver | Context_at addr

datatype callback = Returns nat | Raises nat | Runs nat "command list"
  and command =
    Subscribe_call target string argument
  | Unsubscribe_call target string argument
  | Attach_call target
  | Detach_call target
  | Publish_call string
  and argument = Itself | Other callback

text \<open>What can be thrown: a \<open>TypeError\<close> of the runtime (a property of \<open>undefined\<close> or
  \<open>null\<close> is read, or a non-function is called), the string that \<open>handleMessage\<close>
  throws, and whatever a raising callback throws.\<close>

datatype error = TypeError | Thrown string | Uncaught callback

text \<open>What the API functions return: \<open>this\<close>, \<open>undefined\<close> (a bare \<open>return;\<close>), or
  \<open>false\<close>.\<close>

datatype ret = This | Undef | False_ret

subsection \<open>Redis clients (lib/redis.js)\<close>

text \<open>The commands a client has been asked to send, oldest first. With the offline queue
  enabled a command is accepted whether or not the link is up.\<close>

datatype request =
    Auth string
  | Subscribe string
  | Unsubscribe string
  | Publish string string
  | Quit

text \<open>The object \<open>attach\<close> stores as \<open>client.dispatcher\<close>.\<close>

record client_ns =
  cl_callbacks :: addr
  cl_context :: addr

record client =
  port :: "nat js"
  host :: "string js"
  requests :: "request list"
  error_listeners :: nat
  message_listeners :: nat
  dispatcher :: "client_ns js"

subsection \<open>The \<open>_callbacks\<close> object\<close>

text \<open>
  \<open>_callbacks\<close> is created as the object literal \<open>{}\<close> and read with
  \<open>this._callbacks[event]\<close>. Its own properties are the arrays \<open>subscribe\<close> stores;
  a name it does not own is looked up in \<open>Object.prototype\<close>, which every object literal
  inherits from. So a read gives one of: nothing, an array of callbacks, a function of the
  standard library (of which only \<open>length\<close>, its number of parameters, is read here),
  or \<open>Object.prototype\<close> itself (for \<open>__proto__\<close>).
\<close>

datatype property =
    Absent
  | Array "callback list"
  | Builtin_function nat
  | Prototype_object

text \<open>The members of \<open>Object.prototype\<close> in the ECMAScript standard library.\<close>

definition Object_prototype :: "string \<Rightarrow> property" where
  "Object_prototype k =
     (if k = ''__proto__'' then Prototype_object
      else if k \<in> set [''toString'', ''toLocaleString'', ''valueOf''] then Builtin_function 0
      else if k \<in> set [''constructor'', ''hasOwnProperty'', ''isPrototypeOf'',
                        ''propertyIsEnumerable'', ''__lookupGetter__'', ''__lookupSetter__'']
        then Builtin_function 1
      else if k \<in> set [''__defineGetter__'', ''__defineSetter__''] then Builtin_function 2
      else Absent)"

type_synonym registry = "string \<rightharpoonup> callback list"

definition get_property :: "registry \<Rightarrow> string \<Rightarrow> property" where
  "get_property obj k = (case obj k of Some cbs \<Rightarrow> Array cbs | None \<Rightarrow> Object_prototype k)"

text \<open>\<open>callbacks.length\<close>: \<open>undefined\<close> on an object without that property.\<close>

fun length_of :: "property \<Rightarrow> nat option" where
  "length_of (Array cbs) = Some (length cbs)"
| "length_of (Builtin_function n) = Some n"
| "length_of _ = None"

text \<open>\<open>callbacks[i]\<close>: \<open>undefined\<close> past the end of an array and on anything else.\<close>

fun element :: "property \<Rightarrow> nat \<Rightarrow> callback option" where
  "element (Array cbs) i = (if i < length cbs then Some (cbs ! i) else None)"
| "element _ i = None"

subsection \<open>The state\<close>

text \<open>The object \<open>attach\<close> stores as \<open>context.dispatcher\<close>. Its \<open>subscribe\<close> and
  \<open>unsubscribe\<close> members are the two functions below, called with this object as
  \<open>this\<close>.\<close>

record context_ns =
  callbacks_ref :: addr
  client_ref :: addr
  context_ref :: addr

text \<open>One recorded call of a callback: the function, the receiver and the arguments.\<close>

record invocation =
  callee :: callback
  receiver :: addr
  arguments :: "string list"

record world =
  DEBUG_DISPATCHER :: bool
  redisPublisher :: "addr js"
  redisPort :: "nat js"
  redisHost :: "string js"
  redisPassword :: "string js"
  contexts :: "addr \<Rightarrow> context_ns js"
  clients :: "addr \<Rightarrow> client"
  next_client :: addr
  registries :: "addr \<Rightarrow> registry"
  next_registry :: addr
  log_lines :: "string list"
  invocations :: "invocation list"

text \<open>The module as loaded: debugging is on, nothing is connected, no context carries a
  \<open>dispatcher\<close> attribute.\<close>

definition blank_client :: client where
  "blank_client = \<lparr>port = Undefined, host = Undefined, requests = [], error_listeners = 0,
     message_listeners = 0, dispatcher = Undefined\<rparr>"

definition initial_world :: world where
  "initial_world = \<lparr>DEBUG_DISPATCHER = True, redisPublisher = Undefined,
     redisPort = Undefined, redisHost = Undefined, redisPassword = Undefined,
     contexts = (\<lambda>_. Undefined), clients = (\<lambda>_. blank_client), next_client = 0,
     registries = (\<lambda>_. Map.empty), next_registry = 0, log_lines = [], invocations = []\<rparr>"

text \<open>\<open>log.info(msg)\<close>.\<close>

definition info :: "string \<Rightarrow> world \<Rightarrow> world" where
  "info msg w = w\<lparr>log_lines := log_lines w @ [msg]\<rparr>"

text \<open>\<open>if (DEBUG_DISPATCHER) log.info(msg)\<close>.\<close>

definition debug :: "string \<Rightarrow> world \<Rightarrow> world" where
  "debug msg w = (if DEBUG_DISPATCHER w then info msg w else w)"

text \<open>A command handed to a client.\<close>

definition send :: "addr \<Rightarrow> request \<Rightarrow> world \<Rightarrow> world" where
  "send c r w =
     w\<lparr>clients := (clients w)(c := (clients w c)\<lparr>requests := requests (clients w c) @ [r]\<rparr>)\<rparr>"

subsection \<open>lib/redis.js\<close>

text \<open>\<open>createClient\<close>: a new client object, an \<open>error\<close> listener on it, and
  \<open>auth\<close> when a password is given. \<open>redis.createClient\<close> always returns an object,
  so \<open>client && password\<close> is the truthiness of the password.\<close>

definition createClient :: "nat js \<Rightarrow> string js \<Rightarrow> string js \<Rightarrow> world \<Rightarrow> addr \<times> world" where
  "createClient p h password w =
     (let a = next_client w;
          cl = \<lparr>port = p, host = h, requests = [], error_listeners = 1,
                message_listeners = 0, dispatcher = Undefined\<rparr>;
          w1 = w\<lparr>clients := (clients w)(a := cl), next_client := Suc a\<rparr>
      in (a, case password of
                Val s \<Rightarrow> (if s \<noteq> [] then send a (Auth s) w1 else w1)
              | _ \<Rightarrow> w1))"

subsection \<open>index.js\<close>

definition start :: "nat js \<Rightarrow> string js \<Rightarrow> string js \<Rightarrow> bool \<Rightarrow> world \<Rightarrow> (error + ret) \<times> world" where
  "start p h password dbg w =
     (let w1 = w\<lparr>DEBUG_DISPATCHER := dbg, redisPort := p, redisHost := h,
                 redisPassword := password\<rparr>;
          (a, w2) = createClient p h password w1
      in (Inr This, w2\<lparr>redisPublisher := Val a\<rparr>))"

text \<open>
  \<open>attached\<close>: the debug line is built first, and building it reads
  \<open>context.dispatcher\<close>, which raises when \<open>context\<close> is \<open>undefined\<close> or
  \<open>null\<close>; the test \<open>!context\<close> comes after it.
\<close>

definition attached :: "addr js \<Rightarrow> world \<Rightarrow> (error + bool) \<times> world" where
  "attached context w =
     (case (if DEBUG_DISPATCHER w
            then (case context of
                    Val c \<Rightarrow> Inr (info (''ATTACHED: '' @
                                (if truthy (contexts w c) then ''yes'' else ''no'')) w)
                  | _ \<Rightarrow> Inl TypeError)
            else Inr w) of
        Inl e \<Rightarrow> (Inl e, w)
      | Inr w1 \<Rightarrow>
          (case context of
             Val c \<Rightarrow> (Inr (truthy (contexts w1 c)), w1)
           | _ \<Rightarrow> (Inr False, w1)))"

definition attach :: "addr js \<Rightarrow> world \<Rightarrow> (error + ret) \<times> world" where
  "attach context w =
     (case context of
        Val c \<Rightarrow>
          (case attached context w of
             (Inl e, w1) \<Rightarrow> (Inl e, w1)
           | (Inr True, w1) \<Rightarrow> (Inr Undef, w1)
           | (Inr False, w1) \<Rightarrow>
               (let w2 = debug ''ATTACHED'' w1;
                    (cl, w3) = createClient (redisPort w2) (redisHost w2) (redisPassword w2) w2;
                    r = next_registry w3;
                    w4 = w3\<lparr>registries := (registries w3)(r := Map.empty),
                            next_registry := Suc r\<rparr>;
                    w5 = w4\<lparr>contexts := (contexts w4)
                            (c := Val \<lparr>callbacks_ref = r, client_ref = cl, context_ref = c\<rparr>)\<rparr>;
                    w6 = w5\<lparr>clients := (clients w5)
                            (cl := (clients w5 cl)
                               \<lparr>dispatcher := Val \<lparr>cl_callbacks = r, cl_context = c\<rparr>\<rparr>)\<rparr>;
                    w7 = w6\<lparr>clients := (clients w6)
                            (cl := (clients w6 cl)
                               \<lparr>message_listeners := Suc (message_listeners (clients w6 cl))\<rparr>)\<rparr>
                in (Inr This, w7)))
      | _ \<Rightarrow> (Inr False_ret, w))"

text \<open>\<open>subscribe\<close>, called as \<open>context.dispatcher.subscribe(event, callback)\<close>.
  \<open>push\<close> exists on arrays only: calling it on anything else that is truthy raises.\<close>

definition subscribe :: "context_ns \<Rightarrow> string js \<Rightarrow> callback js \<Rightarrow> world \<Rightarrow> (error + ret) \<times> world" where
  "subscribe this event callback w =
     (let w1 = debug (''SUBSCRIBE: '' @ to_string event) w in
      if \<not> truthy_str event \<or> \<not> truthy callback then (Inr This, w1)
      else (case (event, callback) of
              (Val e, Val cb) \<Rightarrow>
                (let r = callbacks_ref this in
                 case get_property (registries w1 r) e of
                   Absent \<Rightarrow>
                     (Inr This,
                      send (client_ref this) (Subscribe e)
                        (w1\<lparr>registries := (registries w1)(r := (registries w1 r)(e \<mapsto> [cb]))\<rparr>))
                 | Array cbs \<Rightarrow>
                     (Inr This,
                      send (client_ref this) (Subscribe e)
                        (w1\<lparr>registries := (registries w1)(r := (registries w1 r)(e \<mapsto> cbs @ [cb]))\<rparr>))
                 | _ \<Rightarrow> (Inl TypeError, w1))
            | _ \<Rightarrow> (Inr This, w1)))"

definition publish :: "string js \<Rightarrow> world \<Rightarrow> (error + ret) \<times> world" where
  "publish event w =
     (let w1 = debug (''PUBLISH: '' @ to_string event) w in
      if \<not> truthy_str event then (Inr Undef, w1)
      else (case redisPublisher w1 of
              Val p \<Rightarrow> (Inr This, send p (Publish (to_string event) '''') w1)
            | _ \<Rightarrow> (Inl TypeError, w1)))"

text \<open>The loop of \<open>unsubscribe\<close>: \<open>i\<close> runs from \<open>length - 1\<close> down to 0 and
  \<open>splice(i, 1)\<close> takes the entry at \<open>i\<close> out of the array. The first argument of
  \<open>splice_loop\<close> is \<open>i + 1\<close>.\<close>

definition splice :: "'a list \<Rightarrow> nat \<Rightarrow> 'a list" where
  "splice xs i = take i xs @ drop (Suc i) xs"

fun splice_loop :: "nat \<Rightarrow> callback \<Rightarrow> callback list \<Rightarrow> callback list" where
  "splice_loop 0 callback cbs = cbs"
| "splice_loop (Suc i) callback cbs =
     splice_loop i callback
       (if i < length cbs \<and> cbs ! i = callback then splice cbs i else cbs)"

text \<open>\<open>unsubscribe\<close>, called as \<open>context.dispatcher.unsubscribe(event, callback)\<close>.
  On a function of the standard library the loop compares \<open>undefined\<close> with the callback
  and removes nothing; on \<open>Object.prototype\<close> the bound \<open>undefined - 1\<close> is not a
  number and the loop does not run.\<close>

definition unsubscribe :: "context_ns \<Rightarrow> string js \<Rightarrow> callback js \<Rightarrow> world \<Rightarrow> (error + ret) \<times> world" where
  "unsubscribe this event callback w =
     (let w1 = debug (''UNSUBSCRIBE: '' @ to_string event) w in
      if \<not> truthy_str event \<or> \<not> truthy callback then (Inr Undef, w1)
      else (case (event, callback) of
              (Val e, Val cb) \<Rightarrow>
                (let r = callbacks_ref this in
                 case get_property (registries w1 r) e of
                   Absent \<Rightarrow> (Inr This, send (client_ref this) (Unsubscribe e) w1)
                 | Array cbs \<Rightarrow>
                     (let cbs' = splice_loop (length cbs) cb cbs;
                          w2 = w1\<lparr>registries := (registries w1)(r := (registries w1 r)(e \<mapsto> cbs'))\<rparr>
                      in (Inr This,
                          if length cbs' = 0 then send (client_ref this) (Unsubscribe e) w2
                          else w2))
                 | Builtin_function n \<Rightarrow>
                     (Inr This, if n = 0 then send (client_ref this) (Unsubscribe e) w1 else w1)
                 | Prototype_object \<Rightarrow> (Inr This, w1))
            | _ \<Rightarrow> (Inr Undef, w1)))"

definition detach :: "addr js \<Rightarrow> world \<Rightarrow> (error + ret) \<times> world" where
  "detach context w =
     (let w1 = debug ''DETACHED.'' w in
      case context of
        Val c \<Rightarrow>
          (case attached context w1 of
             (Inl e, w2) \<Rightarrow> (Inl e, w2)
           | (Inr False, w2) \<Rightarrow> (Inr Undef, w2)
           | (Inr True, w2) \<Rightarrow>
               (case contexts w2 c of
                  Val ns \<Rightarrow>
                    (let cl = client_ref ns;
                         w3 = send cl Quit w2;
                         w4 = w3\<lparr>clients := (clients w3)
                                 (cl := (clients w3 cl)\<lparr>dispatcher := Null\<rparr>)\<rparr>;
                         w5 = w4\<lparr>contexts := (contexts w4)(c := Null)\<rparr>
                     in (Inr This, w5))
                | _ \<Rightarrow> (Inl TypeError, w2)))
      | _ \<Rightarrow> (Inr Undef, w1))"

subsection \<open>Callbacks\<close>

text \<open>
  What the body of a callback can do to the dispatcher is call its API: on the context it
  was called on (\<open>this\<close>) or on another one, \<open>ctx.dispatcher.subscribe(event, f)\<close>,
  \<open>ctx.dispatcher.unsubscribe(event, f)\<close>, \<open>attach(ctx)\<close>, \<open>detach(ctx)\<close> and
  \<open>publish(event)\<close>, where \<open>f\<close> may be the callback itself. Reading
  \<open>ctx.dispatcher.subscribe\<close> raises when \<open>ctx.dispatcher\<close> is \<open>undefined\<close> or
  \<open>null\<close>. An exception of a call ends the body and leaves the callback.
\<close>

fun resolve :: "target \<Rightarrow> addr \<Rightarrow> addr" where
  "resolve Receiver rcv = rcv"
| "resolve (Context_at a) rcv = a"

fun operand :: "argument \<Rightarrow> callback \<Rightarrow> callback" where
  "operand Itself self = self"
| "operand (Other cb) self = cb"

fun run_command :: "callback \<Rightarrow> addr \<Rightarrow> command \<Rightarrow> world \<Rightarrow> (error + ret) \<times> world" where
  "run_command self rcv (Subscribe_call t e a) w =
     (case contexts w (resolve t rcv) of
        Val ns \<Rightarrow> subscribe ns (Val e) (Val (operand a self)) w
      | _ \<Rightarrow> (Inl TypeError, w))"
| "run_command self rcv (Unsubscribe_call t e a) w =
     (case contexts w (resolve t rcv) of
        Val ns \<Rightarrow> unsubscribe ns (Val e) (Val (operand a self)) w
      | _ \<Rightarrow> (Inl TypeError, w))"
| "run_command self rcv (Attach_call t) w = attach (Val (resolve t rcv)) w"
| "run_command self rcv (Detach_call t) w = detach (Val (resolve t rcv)) w"
| "run_command self rcv (Publish_call e) w = publish (Val e) w"

fun run_body :: "callback \<Rightarrow> addr \<Rightarrow> command list \<Rightarrow> world \<Rightarrow> (error + ret) \<times> world" where
  "run_body self rcv [] w = (Inr Undef, w)"
| "run_body self rcv (c # cs) w =
     (case run_command self rcv c w of
        (Inl err, w1) \<Rightarrow> (Inl err, w1)
      | (Inr _, w1) \<Rightarrow> run_body self rcv cs w1)"

text \<open>\<open>f.call(receiver, event)\<close>: the call is recorded, then the body runs.\<close>

definition call :: "callback \<Rightarrow> addr \<Rightarrow> string \<Rightarrow> world \<Rightarrow> (error + ret) \<times> world" where
  "call cb rcv event w =
     (let w1 = w\<lparr>invocations := invocations w @
                 [\<lparr>callee = cb, receiver = rcv, arguments = [event]\<rparr>]\<rparr>
      in case cb of
           Returns _ \<Rightarrow> (Inr Undef, w1)
         | Raises _ \<Rightarrow> (Inl (Uncaught cb), w1)
         | Runs _ body \<Rightarrow> run_body cb rcv body w1)"

subsection \<open>\<open>handleMessage\<close>\<close>

text \<open>
  The loop of \<open>handleMessage\<close>: \<open>callbacks[i].call(this.dispatcher._context, event)\<close>
  for \<open>i\<close> from 0 while \<open>i < iL\<close>. The bound \<open>iL\<close> is computed once, before the
  loop; the comparison with an \<open>undefined\<close> bound is false. \<open>callbacks\<close> is a
  reference to what was found under the event's name, and \<open>callbacks[i]\<close> and
  \<open>this.dispatcher\<close> are read anew in every turn, so they show what the callbacks
  called so far have done. An array stored under a name is never replaced by another one
  (\<open>subscribe\<close> stores a new array only where it found nothing, and an array is truthy
  even when empty), and a \<open>_callbacks\<close> object is never used again for another
  context: so the array that \<open>callbacks\<close> refers to is the one found under the event's
  name in the \<open>_callbacks\<close> object \<open>r\<close> for as long as the loop runs. A call of
  \<open>undefined\<close> raises, reading \<open>_context\<close> of \<open>null\<close> raises, and an exception
  of a callback is not caught.
\<close>

function call_loop :: "addr \<Rightarrow> addr \<Rightarrow> string \<Rightarrow> nat \<Rightarrow> nat option \<Rightarrow> world \<Rightarrow> (error + ret) \<times> world" where
  "call_loop this r event i iL w =
     (case iL of
        None \<Rightarrow> (Inr Undef, w)
      | Some n \<Rightarrow>
          if i < n then
            (case element (get_property (registries w r) event) i of
               None \<Rightarrow> (Inl TypeError, w)
             | Some cb \<Rightarrow>
                 (case dispatcher (clients w this) of
                    Val ns \<Rightarrow>
                      (case call cb (cl_context ns) event w of
                         (Inl err, w1) \<Rightarrow> (Inl err, w1)
                       | (Inr _, w1) \<Rightarrow> call_loop this r event (Suc i) iL w1)
                  | _ \<Rightarrow> (Inl TypeError, w)))
          else (Inr Undef, w))"
  by pat_completeness auto
termination
  by (relation "measure (\<lambda>(this, r, event, i, iL, w). the iL - i)") auto

text \<open>\<open>handleMessage\<close>, the \<open>message\<close> listener of a subscriber client; \<open>this\<close> is the
  client.\<close>

definition payload_error :: string where
  "payload_error = ''A message payload was sent across Redis. We intentionally do not support this to avoid security issues.''"

definition handleMessage :: "addr \<Rightarrow> string js \<Rightarrow> string js \<Rightarrow> world \<Rightarrow> (error + ret) \<times> world" where
  "handleMessage this event message w =
     (let w1 = debug (''MESSAGE: '' @ to_string event) w in
      if \<not> truthy_str event then (Inr Undef, w1)
      else if truthy_str message then (Inl (Thrown payload_error), w1)
      else (case dispatcher (clients w1 this) of
              Val ns \<Rightarrow>
                (let callbacks = get_property (registries w1 (cl_callbacks ns)) (to_string event);
                     w2 = debug (''MESSAGE: CALLBACK LENGTH: '' @
                            (case length_of callbacks of
                               Some n \<Rightarrow> string_of_nat n
                             | None \<Rightarrow> ''undefined'')) w1
                 in call_loop this (cl_callbacks ns) (to_string event) 0
                      (length_of callbacks) w2)
            | _ \<Rightarrow> (Inl TypeError, w1)))"

subsection \<open>Notions used in the statements\<close>


text \<open>Two states that differ in the log at most: nothing was attached, detached, stored,
  sent or called in between.\<close>

definition no_op :: "world \<Rightarrow> world \<Rightarrow> bool" where
  "no_op w w' = (w'\<lparr>log_lines := log_lines w\<rparr> = w)"

subsection \<open>A run of the module\<close>

text \<open>
  \<open>start(6379, 'localhost', undefined, false)\<close> on the module as loaded, then
  \<open>attach(ctx)\<close> for the context object at address 7. The publisher is client 0, the
  context's subscriber is client 1 and its \<open>_callbacks\<close> object is at address 0, so
  \<open>ctx.dispatcher\<close> is \<open>ns7\<close>. Then \<open>ctx.dispatcher.subscribe('x', f1)\<close> and
  \<open>ctx.dispatcher.subscribe('x', f2)\<close>.
\<close>

definition started_world :: world where
  "started_world = snd (start (Val 6379) (Val ''localhost'') Undefined False initial_world)"

definition attached_world :: world where
  "attached_world = snd (attach (Val 7) started_world)"

definition ns7 :: context_ns where
  "ns7 = \<lparr>callbacks_ref = 0, client_ref = 1, context_ref = 7\<rparr>"

definition subscribed_world :: world where
  "subscribed_world =
     snd (subscribe ns7 (Val ''x'') (Val (Returns 2))
       (snd (subscribe ns7 (Val ''x'') (Val (Returns 1)) attached_world)))"




definition curious :: callback where
  "curious = Runs 3 [Subscribe_call Receiver ''y'' Itself, Publish_call ''y'']"

definition curious_world :: world where
  "curious_world =
     snd (subscribe ns7 (Val ''x'') (Val (Returns 2))
       (snd (subscribe ns7 (Val ''x'') (Val curious) attached_world)))"

definition leaver :: callback where
  "leaver = Runs 4 [Detach_call Receiver]"

definition leaver_world :: world where
  "leaver_world =
     snd (subscribe ns7 (Val ''x'') (Val (Returns 2))
       (snd (subscribe ns7 (Val ''x'') (Val leaver) attached_world)))"

section \<open>Properties\<close>

subsection \<open>Logging and sending leave the rest of the state alone\<close>

lemmas scenario_defs = started_world_def attached_world_def ns7_def subscribed_world_def
  initial_world_def blank_client_def start_def attach_def attached_def createClient_def
  debug_def info_def send_def Let_def

lemma debug_fields [simp]:
  "DEBUG_DISPATCHER (debug m w) = DEBUG_DISPATCHER w"
  "redisPublisher (debug m w) = redisPublisher w"
  "redisPort (debug m w) = redisPort w"
  "redisHost (debug m w) = redisHost w"
  "redisPassword (debug m w) = redisPassword w"
  "contexts (debug m w) = contexts w"
  "clients (debug m w) = clients w"
  "next_client (debug m w) = next_client w"
  "registries (debug m w) = registries w"
  "next_registry (debug m w) = next_registry w"
  "invocations (debug m w) = invocations w"
  by (simp_all add: debug_def info_def)

lemma send_fields [simp]:
  "DEBUG_DISPATCHER (send c r w) = DEBUG_DISPATCHER w"
  "redisPublisher (send c r w) = redisPublisher w"
  "contexts (send c r w) = contexts w"
  "next_client (send c r w) = next_client w"
  "registries (send c r w) = registries w"
  "next_registry (send c r w) = next_registry w"
  "invocations (send c r w) = invocations w"
  "log_lines (send c r w) = log_lines w"
  by (simp_all add: send_def)

lemma send_clients [simp]:
  "requests (clients (send c r w) c) = requests (clients w c) @ [r]"
  "dispatcher (clients (send c r w) c') = dispatcher (clients w c')"
  "c' \<noteq> c \<Longrightarrow> clients (send c r w) c' = clients w c'"
  by (simp_all add: send_def)

lemma no_op_debug [simp]: "no_op w (debug m w)"
  by (simp add: no_op_def debug_def info_def)

lemma no_op_trans: "no_op w w1 \<Longrightarrow> no_op w1 w2 \<Longrightarrow> no_op w w2"
  by (cases w, cases w1, cases w2) (simp add: no_op_def)

lemma subscribed_world_eval:
  "dispatcher (clients subscribed_world (Suc 0)) = Val \<lparr>cl_callbacks = 0, cl_context = 7\<rparr>"
  "registries subscribed_world 0 ''x'' = Some [Returns 1, Returns 2]"
  "invocations subscribed_world = []"
  "requests (clients subscribed_world (Suc 0)) = [Subscribe ''x'', Subscribe ''x'']"
  by (simp_all add: scenario_defs subscribe_def get_property_def Object_prototype_def)

subsection \<open>\<open>attached\<close>\<close>

lemma attached_object:
  "attached (Val c) w = (Inr (truthy (contexts w c)),
      debug (''ATTACHED: '' @ (if truthy (contexts w c) then ''yes'' else ''no'')) w)"
  by (simp add: attached_def debug_def info_def)

text \<open>On \<open>undefined\<close> and \<open>null\<close> the answer is \<open>false\<close> only while debugging is off.\<close>

lemma attached_nullish:
  "\<not> truthy context \<Longrightarrow>
     attached context w = (if DEBUG_DISPATCHER w then (Inl TypeError, w) else (Inr False, w))"
  by (cases "context") (simp_all add: attached_def)

text \<open>
  C1 says that \<open>attached\<close> returns \<open>false\<close> and raises nothing for every nullish
  context. The module is loaded with \<open>DEBUG_DISPATCHER = true\<close>, and then
  \<open>attached(null)\<close> raises a \<open>TypeError\<close>: the debug line reads
  \<open>context.dispatcher\<close> before \<open>!context\<close> is tested.
\<close>

theorem attached_null_raises_by_default:
  "fst (attached Null initial_world) = Inl TypeError"
  by (simp add: attached_def initial_world_def)

subsection \<open>\<open>attach\<close>\<close>

lemma attach_attached:
  "contexts w c = Val ns \<Longrightarrow> attach (Val c) w = (Inr Undef, debug ''ATTACHED: yes'' w)"
  by (simp add: attach_def attached_object)

text \<open>What a first \<open>attach\<close> builds: a new client with one \<open>message\<close> listener, a new
  empty \<open>_callbacks\<close> object, and the two namespace objects pointing at them and at the
  context.\<close>

lemma attach_fresh:
  assumes "\<not> truthy (contexts w c)"
  shows "fst (attach (Val c) w) = Inr This"
    and "contexts (snd (attach (Val c) w)) c =
           Val \<lparr>callbacks_ref = next_registry w, client_ref = next_client w, context_ref = c\<rparr>"
    and "dispatcher (clients (snd (attach (Val c) w)) (next_client w)) =
           Val \<lparr>cl_callbacks = next_registry w, cl_context = c\<rparr>"
    and "message_listeners (clients (snd (attach (Val c) w)) (next_client w)) = 1"
    and "registries (snd (attach (Val c) w)) (next_registry w) = Map.empty"
    and "next_client (snd (attach (Val c) w)) = Suc (next_client w)"
    and "next_registry (snd (attach (Val c) w)) = Suc (next_registry w)"
  using assms
  by (cases "redisPassword w";
      simp add: attach_def attached_object createClient_def send_def Let_def)+

lemma attach_returns:
  "\<not> truthy context \<Longrightarrow> attach context w = (Inr False_ret, w)"
  "\<not> truthy (contexts w c) \<Longrightarrow> fst (attach (Val c) w) = Inr This"
  "truthy (contexts w c) \<Longrightarrow> fst (attach (Val c) w) = Inr Undef"
  by (cases "context"; simp add: attach_def attached_object Let_def split: prod.splits)+

text \<open>Scenario C of the specification: two calls of \<open>attach\<close> on one context open as many
  clients as one call.\<close>

lemma attach_twice_one_client:
  "next_client (snd (attach (Val c) (snd (attach (Val c) w)))) =
     next_client (snd (attach (Val c) w))"
proof (cases "contexts w c")
  case (Val ns)
  then show ?thesis by (simp add: attach_attached)
next
  case Undefined
  then have "\<not> truthy (contexts w c)" by simp
  from attach_fresh(2) [OF this] show ?thesis by (simp add: attach_attached)
next
  case Null
  then have "\<not> truthy (contexts w c)" by simp
  from attach_fresh(2) [OF this] show ?thesis by (simp add: attach_attached)
qed

text \<open>
  C3: \<open>attach\<close> on a context that is attached already opens no client and builds no
  \<open>_callbacks\<close> object, and leaves the \<open>dispatcher\<close> attributes of all contexts and
  clients as they are. It writes the debug line of \<open>attached\<close> and nothing else.
\<close>

theorem attach_idempotent:
  assumes "contexts w c = Val ns"
  shows "snd (attach (Val c) w) = debug ''ATTACHED: yes'' w
       \<and> next_client (snd (attach (Val c) w)) = next_client w
       \<and> clients (snd (attach (Val c) w)) = clients w
       \<and> next_registry (snd (attach (Val c) w)) = next_registry w
       \<and> registries (snd (attach (Val c) w)) = registries w
       \<and> contexts (snd (attach (Val c) w)) = contexts w"
  using assms by (simp add: attach_def attached_object)

theorem attach_idempotent_witness:
  "contexts attached_world 7 = Val ns7
   \<and> next_client (snd (attach (Val 7) attached_world)) = next_client attached_world
   \<and> clients (snd (attach (Val 7) attached_world)) = clients attached_world
   \<and> next_registry (snd (attach (Val 7) attached_world)) = next_registry attached_world
   \<and> registries (snd (attach (Val 7) attached_world)) = registries attached_world
   \<and> contexts (snd (attach (Val 7) attached_world)) = contexts attached_world"
proof -
  have h: "contexts attached_world 7 = Val ns7"
    by (simp add: scenario_defs)
  from attach_idempotent [OF h] h show ?thesis by simp
qed

text \<open>
  C9 says that \<open>attach\<close> returns the dispatcher for every context that is not nullish,
  also when the context is attached already. On an attached context the code runs a bare
  \<open>return;\<close>, so the caller gets \<open>undefined\<close>; \<open>attach_returns\<close> above gives the
  three cases.
\<close>

theorem attach_again_returns_undefined:
  "contexts attached_world 7 = Val ns7 \<and> fst (attach (Val 7) attached_world) = Inr Undef"
  by (simp add: scenario_defs)

subsection \<open>\<open>detach\<close>\<close>

text \<open>
  C8: \<open>detach\<close> does nothing but log when the context is nullish or not attached.
  On an attached context it sends \<open>quit\<close> on the context's client, sets the client's
  \<open>dispatcher\<close> and the context's \<open>dispatcher\<close> to \<open>null\<close>, and \<open>attached\<close>
  answers \<open>false\<close> afterwards.
\<close>

theorem detach_clears_cross_references:
  "(\<not> truthy context \<longrightarrow>
      detach context w = (Inr Undef, debug ''DETACHED.'' w) \<and> no_op w (snd (detach context w)))
   \<and> (\<not> truthy (contexts w c) \<longrightarrow>
        detach (Val c) w = (Inr Undef, debug ''ATTACHED: no'' (debug ''DETACHED.'' w))
        \<and> no_op w (snd (detach (Val c) w)))
   \<and> (contexts w c' = Val ns \<longrightarrow>
        fst (detach (Val c') w) = Inr This
        \<and> requests (clients (snd (detach (Val c') w)) (client_ref ns)) =
            requests (clients w (client_ref ns)) @ [Quit]
        \<and> dispatcher (clients (snd (detach (Val c') w)) (client_ref ns)) = Null
        \<and> contexts (snd (detach (Val c') w)) c' = Null
        \<and> fst (attached (Val c') (snd (detach (Val c') w))) = Inr False)"
proof (intro conjI impI)
  assume "\<not> truthy context"
  then show "detach context w = (Inr Undef, debug ''DETACHED.'' w)"
    by (cases "context") (simp_all add: detach_def Let_def)
  then show "no_op w (snd (detach context w))" by simp
next
  assume n: "\<not> truthy (contexts w c)"
  then show d: "detach (Val c) w = (Inr Undef, debug ''ATTACHED: no'' (debug ''DETACHED.'' w))"
    by (simp add: detach_def Let_def attached_object)
  show "no_op w (snd (detach (Val c) w))"
    unfolding d by (simp add: no_op_trans [OF no_op_debug no_op_debug])
next
  let ?w2 = "send (client_ref ns) Quit (debug ''ATTACHED: yes'' (debug ''DETACHED.'' w))"
  assume a: "contexts w c' = Val ns"
  then have d: "detach (Val c') w =
      (Inr This, ?w2\<lparr>clients := (clients ?w2)
                        (client_ref ns := (clients ?w2 (client_ref ns))\<lparr>dispatcher := Null\<rparr>),
                    contexts := (contexts w)(c' := Null)\<rparr>)"
    by (simp add: detach_def Let_def attached_object)
  show "fst (detach (Val c') w) = Inr This" by (simp add: d)
  show "requests (clients (snd (detach (Val c') w)) (client_ref ns)) =
            requests (clients w (client_ref ns)) @ [Quit]" by (simp add: d)
  show "dispatcher (clients (snd (detach (Val c') w)) (client_ref ns)) = Null" by (simp add: d)
  show "contexts (snd (detach (Val c') w)) c' = Null" by (simp add: d)
  show "fst (attached (Val c') (snd (detach (Val c') w))) = Inr False"
    by (simp add: d attached_object)
qed

theorem detach_clears_cross_references_witness:
  "\<not> truthy (Null :: addr js)
   \<and> detach Null attached_world = (Inr Undef, debug ''DETACHED.'' attached_world)
   \<and> \<not> truthy (contexts attached_world 3)
   \<and> detach (Val 3) attached_world =
       (Inr Undef, debug ''ATTACHED: no'' (debug ''DETACHED.'' attached_world))
   \<and> contexts attached_world 7 = Val ns7
   \<and> fst (detach (Val 7) attached_world) = Inr This
   \<and> requests (clients (snd (detach (Val 7) attached_world)) 1) = [Quit]
   \<and> dispatcher (clients (snd (detach (Val 7) attached_world)) 1) = Null
   \<and> contexts (snd (detach (Val 7) attached_world)) 7 = Null
   \<and> fst (attached (Val 7) (snd (detach (Val 7) attached_world))) = Inr False"
proof -
  have n: "\<not> truthy (Null :: addr js)" by simp
  have u: "\<not> truthy (contexts attached_world 3)" by (simp add: scenario_defs)
  have a: "contexts attached_world 7 = Val ns7" by (simp add: scenario_defs)
  have r: "requests (clients attached_world (Suc 0)) = []" by (simp add: scenario_defs)
  from detach_clears_cross_references [of Null attached_world 3 7 ns7] n u a r
  show ?thesis by (simp add: ns7_def)
qed

subsection \<open>\<open>subscribe\<close>\<close>

lemma subscribe_missing_argument:
  "\<not> truthy_str event \<or> \<not> truthy callback \<Longrightarrow>
     subscribe this event callback w = (Inr This, debug (''SUBSCRIBE: '' @ to_string event) w)"
  by (auto simp: subscribe_def Let_def)

text \<open>For a name that \<open>Object.prototype\<close> does not define, \<open>subscribe\<close> puts the
  callback at the end of the event's array, whether or not it is there already, and sends
  \<open>subscribe\<close> every time.\<close>

lemma subscribe_appends:
  assumes "e \<noteq> []" and "Object_prototype e = Absent"
  shows "fst (subscribe this (Val e) (Val cb) w) = Inr This
       \<and> registries (snd (subscribe this (Val e) (Val cb) w)) (callbacks_ref this) e =
           Some ((case registries w (callbacks_ref this) e of None \<Rightarrow> [] | Some cbs \<Rightarrow> cbs) @ [cb])
       \<and> requests (clients (snd (subscribe this (Val e) (Val cb) w)) (client_ref this)) =
           requests (clients w (client_ref this)) @ [Subscribe e]"
  using assms
  by (cases "registries w (callbacks_ref this) e")
     (simp_all add: subscribe_def get_property_def Let_def)

text \<open>No array is ever stored under the empty name.\<close>

lemma subscribe_keeps_empty_name_free:
  "registries w r [] = None \<Longrightarrow> registries (snd (subscribe this event callback w)) r [] = None"
  by (cases event; cases callback)
     (auto simp: subscribe_def Let_def split: property.splits)

text \<open>
  C6 says that \<open>subscribe\<close> appends the callback and sends \<open>subscribe\<close> for every
  truthy event. For an event named like a member of \<open>Object.prototype\<close> the read
  \<open>this._callbacks[event]\<close> finds the inherited member, which is truthy and has no
  \<open>push\<close>: the call raises a \<open>TypeError\<close>, nothing is stored and nothing is sent.
  Here the event is \<open>'constructor'\<close>, on a context that has just been attached.
\<close>

theorem subscribe_inherited_name_raises:
  "registries attached_world (callbacks_ref ns7) ''constructor'' = None
   \<and> fst (subscribe ns7 (Val ''constructor'') (Val (Returns 1)) attached_world) = Inl TypeError
   \<and> registries (snd (subscribe ns7 (Val ''constructor'') (Val (Returns 1)) attached_world))
        (callbacks_ref ns7) ''constructor'' = None
   \<and> requests (clients (snd (subscribe ns7 (Val ''constructor'') (Val (Returns 1)) attached_world))
        (client_ref ns7)) = []"
  by (simp add: subscribe_def get_property_def Object_prototype_def scenario_defs)

text \<open>Both arguments pass the first test of \<open>subscribe\<close>: the event is a non-empty
  string and the callback is present.\<close>

theorem subscribe_inherited_name_raises_witness:
  "truthy_str (Val ''constructor'') \<and> truthy (Val (Returns 1))
   \<and> fst (subscribe ns7 (Val ''constructor'') (Val (Returns 1)) attached_world) = Inl TypeError"
  using subscribe_inherited_name_raises by simp

subsection \<open>\<open>unsubscribe\<close>\<close>

lemma unsubscribe_missing_argument:
  "\<not> truthy_str event \<or> \<not> truthy callback \<Longrightarrow>
     unsubscribe this event callback w = (Inr Undef, debug (''UNSUBSCRIBE: '' @ to_string event) w)"
  by (auto simp: unsubscribe_def Let_def)

lemma unsubscribe_keeps_empty_name_free:
  "registries w r [] = None \<Longrightarrow> registries (snd (unsubscribe this event callback w)) r [] = None"
  by (cases event; cases callback)
     (auto simp: unsubscribe_def Let_def split: property.splits)

text \<open>The loop, run over the first \<open>n\<close> entries from the back, has filtered those and
  kept the rest.\<close>

lemma splice_loop_filter:
  "n \<le> length cbs \<Longrightarrow>
     splice_loop n cb cbs = filter (\<lambda>x. x \<noteq> cb) (take n cbs) @ drop n cbs"
proof (induction n arbitrary: cbs)
  case 0
  then show ?case by simp
next
  case (Suc n)
  then have lt: "n < length cbs" by simp
  have t: "take (Suc n) cbs = take n cbs @ [cbs ! n]"
    using lt by (simp add: take_Suc_conv_app_nth)
  have d: "drop n cbs = cbs ! n # drop (Suc n) cbs"
    using lt by (simp add: Cons_nth_drop_Suc)
  show ?case
  proof (cases "cbs ! n = cb")
    case True
    have "n \<le> length (splice cbs n)" using lt by (simp add: splice_def)
    from Suc.IH [OF this] True lt t show ?thesis
      by (simp add: splice_def)
  next
    case False
    have "n \<le> length cbs" using lt by simp
    from Suc.IH [OF this] False lt t d show ?thesis by simp
  qed
qed

lemma splice_loop_all: "splice_loop (length cbs) cb cbs = filter (\<lambda>x. x \<noteq> cb) cbs"
  by (simp add: splice_loop_filter)

text \<open>
  C5 as it is written speaks of every event. For the empty event name, which has no array,
  \<open>unsubscribe\<close> returns at its first test and sends nothing.
\<close>

theorem unsubscribe_falsy_event_counterexample:
  "registries attached_world (callbacks_ref ns7) '''' = None
   \<and> requests (clients (snd (unsubscribe ns7 (Val '''') (Val (Returns 1)) attached_world))
        (client_ref ns7)) = requests (clients attached_world (client_ref ns7))"
  by (simp add: unsubscribe_def scenario_defs)

text \<open>
  C5, for a truthy event whose name \<open>Object.prototype\<close> does not define, and a callback
  that is present: \<open>unsubscribe\<close> removes every entry equal to the callback from the
  event's array, and sends \<open>unsubscribe\<close> for the event exactly when the array is empty
  afterwards or there was none.
\<close>

theorem unsubscribe_removes_all:
  assumes "e \<noteq> []" and "Object_prototype e = Absent"
  shows "fst (unsubscribe this (Val e) (Val cb) w) = Inr This
       \<and> registries (snd (unsubscribe this (Val e) (Val cb) w)) (callbacks_ref this) e =
           map_option (filter (\<lambda>x. x \<noteq> cb)) (registries w (callbacks_ref this) e)
       \<and> requests (clients (snd (unsubscribe this (Val e) (Val cb) w)) (client_ref this)) =
           requests (clients w (client_ref this)) @
             (if (case registries w (callbacks_ref this) e of
                    None \<Rightarrow> True
                  | Some cbs \<Rightarrow> filter (\<lambda>x. x \<noteq> cb) cbs = [])
              then [Unsubscribe e] else [])"
  using assms
  by (cases "registries w (callbacks_ref this) e")
     (simp_all add: unsubscribe_def get_property_def splice_loop_all Let_def)

theorem unsubscribe_removes_all_witness:
  "''x'' \<noteq> [] \<and> Object_prototype ''x'' = Absent
   \<and> registries (snd (unsubscribe ns7 (Val ''x'') (Val (Returns 1)) subscribed_world)) 0 ''x''
       = Some [Returns 2]
   \<and> requests (clients (snd (unsubscribe ns7 (Val ''x'') (Val (Returns 1)) subscribed_world)) 1)
       = [Subscribe ''x'', Subscribe ''x'']"
proof -
  have e: "''x'' \<noteq> []" by simp
  have p: "Object_prototype ''x'' = Absent" by (simp add: Object_prototype_def)
  from unsubscribe_removes_all [OF e p, of ns7 "Returns 1" subscribed_world] e p
  show ?thesis by (simp add: subscribed_world_eval ns7_def)
qed

subsection \<open>\<open>publish\<close>\<close>

text \<open>
  C7: with a falsy event \<open>publish\<close> does nothing but log. With a truthy event, once
  \<open>start\<close> has set the publisher, it sends \<open>publish\<close> with the event as the channel
  and the empty string as the payload on the publisher, and touches no other client.
\<close>

theorem publish_empty_payload:
  "(\<not> truthy_str event \<longrightarrow>
      publish event w = (Inr Undef, debug (''PUBLISH: '' @ to_string event) w)
      \<and> no_op w (snd (publish event w)))
   \<and> (e \<noteq> [] \<and> redisPublisher w = Val p \<longrightarrow>
        fst (publish (Val e) w) = Inr This
        \<and> requests (clients (snd (publish (Val e) w)) p) = requests (clients w p) @ [Publish e '''']
        \<and> (\<forall>c. c \<noteq> p \<longrightarrow> clients (snd (publish (Val e) w)) c = clients w c))"
  by (simp add: publish_def Let_def)

theorem publish_empty_payload_witness:
  "\<not> truthy_str Undefined
   \<and> publish Undefined started_world = (Inr Undef, debug ''PUBLISH: undefined'' started_world)
   \<and> no_op started_world (snd (publish Undefined started_world))
   \<and> ''change:restaurant'' \<noteq> [] \<and> redisPublisher started_world = Val 0
   \<and> fst (publish (Val ''change:restaurant'') started_world) = Inr This
   \<and> requests (clients (snd (publish (Val ''change:restaurant'') started_world)) 0) =
        [Publish ''change:restaurant'' '''']
   \<and> clients (snd (publish (Val ''change:restaurant'') started_world)) 1 = clients started_world 1"
proof -
  have f: "\<not> truthy_str Undefined" by simp
  have p: "''change:restaurant'' \<noteq> [] \<and> redisPublisher started_world = Val 0"
    by (simp add: scenario_defs)
  have r: "requests (clients started_world 0) = []"
    by (simp add: scenario_defs)
  from publish_empty_payload [of Undefined started_world "''change:restaurant''" 0] f p r
  show ?thesis by simp
qed

text \<open>Before \<open>start\<close> there is no publisher to send on.\<close>

lemma publish_before_start:
  "fst (publish (Val ''x'') initial_world) = Inl TypeError"
  by (simp add: publish_def initial_world_def debug_def info_def)

subsection \<open>What a callback can and cannot change\<close>

text \<open>No call of the API calls a callback: the record of calls grows in the loop of
  \<open>handleMessage\<close> only.\<close>

lemma api_invocations [simp]:
  "invocations (snd (subscribe ns ev cb w)) = invocations w"
  "invocations (snd (unsubscribe ns ev cb w)) = invocations w"
  "invocations (snd (publish ev w)) = invocations w"
  "invocations (snd (attach c w)) = invocations w"
  "invocations (snd (detach c w)) = invocations w"
  by (auto simp: subscribe_def unsubscribe_def publish_def attach_def detach_def attached_def
      createClient_def info_def Let_def
      split: js.splits property.splits prod.splits sum.splits bool.splits if_splits)

lemma run_command_invocations [simp]:
  "invocations (snd (run_command self rcv c w)) = invocations w"
  by (cases c) (simp_all split: js.splits)

lemma run_body_invocations [simp]:
  "invocations (snd (run_body self rcv cs w)) = invocations w"
proof (induction cs arbitrary: w)
  case Nil
  then show ?case by simp
next
  case (Cons c cs)
  have "invocations (snd (run_command self rcv c w)) = invocations w" by simp
  with Cons.IH show ?case
    by (cases "run_command self rcv c w") (auto split: sum.splits)
qed


lemma call_raises:
  "call (Raises n) rcv e w =
     (Inl (Uncaught (Raises n)),
      w\<lparr>invocations := invocations w @ [\<lparr>callee = Raises n, receiver = rcv, arguments = [e]\<rparr>]\<rparr>)"
  by (simp add: call_def)

text \<open>
  An array, once stored under a name of a \<open>_callbacks\<close> object that is in use, stays
  there whatever is called: its entries may change, the array is never taken away. This is
  why the loop of \<open>handleMessage\<close> can find the array it holds under the same name in
  every turn.
\<close>

lemma subscribe_keeps_arrays:
  "registries w r e = Some cbs \<Longrightarrow>
     next_registry (snd (subscribe ns ev cb w)) = next_registry w
     \<and> (\<exists>cbs'. registries (snd (subscribe ns ev cb w)) r e = Some cbs')"
  by (cases ev; cases cb)
     (auto simp: subscribe_def Let_def split: property.splits)

lemma unsubscribe_keeps_arrays:
  "registries w r e = Some cbs \<Longrightarrow>
     next_registry (snd (unsubscribe ns ev cb w)) = next_registry w
     \<and> (\<exists>cbs'. registries (snd (unsubscribe ns ev cb w)) r e = Some cbs')"
  by (cases ev; cases cb)
     (auto simp: unsubscribe_def Let_def split: property.splits)

lemma publish_keeps_arrays:
  "next_registry (snd (publish ev w)) = next_registry w
   \<and> registries (snd (publish ev w)) = registries w"
  by (auto simp: publish_def Let_def split: js.splits)

lemma detach_keeps_arrays:
  "next_registry (snd (detach c w)) = next_registry w
   \<and> registries (snd (detach c w)) = registries w"
  by (cases c) (auto simp: detach_def attached_object Let_def split: js.splits)

lemma attach_keeps_arrays:
  "r < next_registry w \<Longrightarrow>
     next_registry w \<le> next_registry (snd (attach c w))
     \<and> registries (snd (attach c w)) r = registries w r"
  by (cases c; cases "redisPassword w")
     (auto simp: attach_def attached_object createClient_def send_def Let_def split: js.splits)

lemma run_command_keeps_arrays:
  assumes "r < next_registry w" and "registries w r e = Some cbs"
  shows "r < next_registry (snd (run_command self rcv c w))
       \<and> (\<exists>cbs'. registries (snd (run_command self rcv c w)) r e = Some cbs')"
proof (cases c)
  case (Subscribe_call t e' a)
  then show ?thesis
    using assms subscribe_keeps_arrays [OF assms(2)] by (auto split: js.splits)
next
  case (Unsubscribe_call t e' a)
  then show ?thesis
    using assms unsubscribe_keeps_arrays [OF assms(2)] by (auto split: js.splits)
next
  case (Attach_call t)
  then show ?thesis
    using assms attach_keeps_arrays [OF assms(1), of "Val (resolve t rcv)"] by auto
next
  case (Detach_call t)
  then show ?thesis using assms by (simp add: detach_keeps_arrays)
next
  case (Publish_call e')
  then show ?thesis using assms by (simp add: publish_keeps_arrays)
qed

lemma run_body_keeps_arrays:
  "r < next_registry w \<Longrightarrow> registries w r e = Some cbs \<Longrightarrow>
     r < next_registry (snd (run_body self rcv cs w))
     \<and> (\<exists>cbs'. registries (snd (run_body self rcv cs w)) r e = Some cbs')"
proof (induction cs arbitrary: w cbs)
  case Nil
  then show ?case by simp
next
  case (Cons c cs)
  obtain res w1 where c: "run_command self rcv c w = (res, w1)"
    by (cases "run_command self rcv c w") simp
  from run_command_keeps_arrays [OF Cons.prems, of self rcv c] c
  obtain cbs1 where w1: "r < next_registry w1" "registries w1 r e = Some cbs1" by auto
  show ?case
  proof (cases res)
    case (Inl err)
    with c w1 show ?thesis by simp
  next
    case (Inr v)
    with c Cons.IH [OF w1] show ?thesis by simp
  qed
qed

lemma call_keeps_arrays:
  assumes "r < next_registry w" and "registries w r e = Some cbs"
  shows "r < next_registry (snd (call cb rcv ev w))
       \<and> (\<exists>cbs'. registries (snd (call cb rcv ev w)) r e = Some cbs')"
proof (cases cb)
  case (Returns n)
  with assms show ?thesis by (simp add: call_def Let_def)
next
  case (Raises n)
  with assms show ?thesis by (simp add: call_def Let_def)
next
  case (Runs n body)
  let ?w1 = "w\<lparr>invocations := invocations w @
                 [\<lparr>callee = cb, receiver = rcv, arguments = [ev]\<rparr>]\<rparr>"
  have "r < next_registry ?w1" "registries ?w1 r e = Some cbs" using assms by simp_all
  from run_body_keeps_arrays [OF this] Runs show ?thesis
    by (simp add: call_def Let_def)
qed

subsection \<open>\<open>handleMessage\<close>\<close>

text \<open>
  C10: a delivery whose event name is falsy returns at the first test, whatever the
  payload is: nothing is raised and no callback is called.
\<close>

theorem handleMessage_falsy_event_returns:
  assumes "\<not> truthy_str event"
  shows "handleMessage this event message w = (Inr Undef, debug (''MESSAGE: '' @ to_string event) w)
       \<and> invocations (snd (handleMessage this event message w)) = invocations w"
  using assms by (simp add: handleMessage_def Let_def)

theorem handleMessage_falsy_event_returns_witness:
  "\<not> truthy_str (Val '''')
   \<and> fst (handleMessage 1 (Val '''') (Val ''data'') subscribed_world) = Inr Undef
   \<and> invocations (snd (handleMessage 1 (Val '''') (Val ''data'') subscribed_world)) = []"
proof -
  have e: "\<not> truthy_str (Val '''')" by simp
  from handleMessage_falsy_event_returns [OF e, of 1 "Val ''data''" subscribed_world] e
  show ?thesis by (simp add: subscribed_world_eval)
qed

text \<open>
  C2 as it is written speaks of every delivery with a non-empty payload. A delivery with
  the payload \<open>'x'\<close> and the empty event name returns without raising.
\<close>

theorem handleMessage_falsy_event_payload_counterexample:
  "fst (handleMessage 1 (Val '''') (Val ''x'') attached_world) = Inr Undef"
  by (simp add: handleMessage_def)

text \<open>
  C2, for a delivery whose event name is truthy: a non-empty payload makes
  \<open>handleMessage\<close> throw its message, and no callback is called.
\<close>

theorem handleMessage_payload_raises:
  assumes "truthy_str event" and "truthy_str message"
  shows "fst (handleMessage this event message w) = Inl (Thrown payload_error)
       \<and> invocations (snd (handleMessage this event message w)) = invocations w"
  using assms by (simp add: handleMessage_def Let_def)

theorem handleMessage_payload_raises_witness:
  "truthy_str (Val ''x'') \<and> truthy_str (Val ''data'')
   \<and> fst (handleMessage 1 (Val ''x'') (Val ''data'') subscribed_world) = Inl (Thrown payload_error)
   \<and> invocations (snd (handleMessage 1 (Val ''x'') (Val ''data'') subscribed_world)) = []"
proof -
  have e: "truthy_str (Val ''x'')" and m: "truthy_str (Val ''data'')" by simp_all
  from handleMessage_payload_raises [OF e m, of 1 subscribed_world] e m
  show ?thesis by (simp add: subscribed_world_eval)
qed





text \<open>An event without an array of its own, under a name \<open>Object.prototype\<close> does not
  define: nothing is called.\<close>

lemma handleMessage_no_list:
  assumes "dispatcher (clients w this) = Val ns"
    and "e \<noteq> []"
    and "\<not> truthy_str message"
    and "registries w (cl_callbacks ns) e = None"
    and "Object_prototype e = Absent"
  shows "fst (handleMessage this (Val e) message w) = Inr Undef
       \<and> invocations (snd (handleMessage this (Val e) message w)) = invocations w"
  using assms by (simp add: handleMessage_def get_property_def Let_def)

text \<open>After \<open>detach\<close> the client has lost its \<open>dispatcher\<close> attribute: a delivery that
  still arrives fails on reading it.\<close>

lemma handleMessage_after_detach:
  "fst (handleMessage 1 (Val ''x'') (Val '''') (snd (detach (Val 7) subscribed_world)))
     = Inl TypeError"
  by (simp add: handleMessage_def detach_def scenario_defs subscribe_def get_property_def
      Object_prototype_def)

text \<open>Scenario B of the specification: \<open>subscribe('x', f1)\<close>, \<open>subscribe('x', f2)\<close>,
  \<open>unsubscribe('x', f1)\<close>, and a delivery of \<open>'x'\<close> calls \<open>f2\<close> alone.\<close>

lemma scenario_B:
  "invocations (snd (handleMessage 1 (Val ''x'') (Val '''')
      (snd (unsubscribe ns7 (Val ''x'') (Val (Returns 1)) subscribed_world)))) =
     [\<lparr>callee = Returns 2, receiver = 7, arguments = [''x'']\<rparr>]"
  by (simp add: handleMessage_def call_def unsubscribe_def scenario_defs subscribe_def
      get_property_def Object_prototype_def splice_def)

text \<open>A callback that calls into the dispatcher without touching the array of the event
  being delivered: it subscribes itself to \<open>'y'\<close> and publishes \<open>'y'\<close>. Both entries
  for \<open>'x'\<close> are called, and the subscription and the publication are made.\<close>

lemma delivery_with_curious_callback:
  "fst (handleMessage 1 (Val ''x'') (Val '''') curious_world) = Inr Undef
   \<and> invocations (snd (handleMessage 1 (Val ''x'') (Val '''') curious_world)) =
        [\<lparr>callee = curious, receiver = 7, arguments = [''x'']\<rparr>,
         \<lparr>callee = Returns 2, receiver = 7, arguments = [''x'']\<rparr>]
   \<and> registries (snd (handleMessage 1 (Val ''x'') (Val '''') curious_world)) 0 ''y''
        = Some [curious]
   \<and> requests (clients (snd (handleMessage 1 (Val ''x'') (Val '''') curious_world)) 0)
        = [Publish ''y'' '''']"
  by (simp add: handleMessage_def call_def curious_def curious_world_def publish_def
      scenario_defs subscribe_def get_property_def Object_prototype_def)

text \<open>A callback that detaches its context: the next turn of the loop reads
  \<open>this.dispatcher._context\<close> on a client whose \<open>dispatcher\<close> is \<open>null\<close> by then.\<close>

lemma delivery_with_detaching_callback:
  "registries leaver_world 0 ''x'' = Some [leaver, Returns 2]
   \<and> fst (handleMessage 1 (Val ''x'') (Val '''') leaver_world) = Inl TypeError
   \<and> invocations (snd (handleMessage 1 (Val ''x'') (Val '''') leaver_world)) =
        [\<lparr>callee = leaver, receiver = 7, arguments = [''x'']\<rparr>]"
  by (simp add: handleMessage_def call_def leaver_def leaver_world_def detach_def
      scenario_defs subscribe_def get_property_def Object_prototype_def)

end
